theory Spec2Isabelle
  imports Complex_Main
begin

section \<open>JavaScript values\<close>

text \<open>
  The library is dynamically typed JavaScript (Google Apps Script). Arguments and parsed
  response bodies are values of \<open>jsval\<close>. A number is a finite value, one of the two
  infinities, or NaN; finite values are rationals, which covers every finite double
  (the arithmetic of the program is limited to counting and comparing). A string is its
  list of characters. An object is the list of its own properties; where a key occurs
  twice the first occurrence counts.
\<close>

datatype jsnum = NaN | Fin rat | PosInf | NegInf

datatype jsval =
    JUndefined
  | JNull
  | JBool bool
  | JNum jsnum
  | JStr string
  | JArr "jsval list"
  | JObj "(string \<times> jsval) list"

text \<open>What the program can throw: \<open>new Error(message)\<close>, and the two errors the runtime
  raises for it (\<open>undefined.f\<close>, a call of something that is no function; a failed
  \<open>JSON.parse\<close>).\<close>

datatype error = Error string | TypeError | SyntaxError

text \<open>Truthiness (\<open>!x\<close>, \<open>x || y\<close>, \<open>if (x)\<close>), \<open>typeof\<close>, \<open>Array.isArray\<close>.\<close>

fun truthy :: "jsval \<Rightarrow> bool" where
  "truthy JUndefined = False"
| "truthy JNull = False"
| "truthy (JBool b) = b"
| "truthy (JNum n) = (n \<noteq> NaN \<and> n \<noteq> Fin 0)"
| "truthy (JStr s) = (s \<noteq> [])"
| "truthy (JArr xs) = True"
| "truthy (JObj kv) = True"

fun typeof :: "jsval \<Rightarrow> string" where
  "typeof JUndefined = ''undefined''"
| "typeof JNull = ''object''"
| "typeof (JBool b) = ''boolean''"
| "typeof (JNum n) = ''number''"
| "typeof (JStr s) = ''string''"
| "typeof (JArr xs) = ''object''"
| "typeof (JObj kv) = ''object''"

fun isArray :: "jsval \<Rightarrow> bool" where
  "isArray (JArr xs) = True"
| "isArray _ = False"

text \<open>A parameter default \<open>p = d\<close> replaces \<open>undefined\<close> only.\<close>

definition dflt :: "jsval \<Rightarrow> jsval \<Rightarrow> jsval" where
  "dflt v d = (if v = JUndefined then d else v)"

text \<open>Comparison of numbers: every comparison with NaN is false.\<close>

fun num_lt :: "jsnum \<Rightarrow> jsnum \<Rightarrow> bool" where
  "num_lt (Fin a) (Fin b) = (a < b)"
| "num_lt (Fin a) PosInf = True"
| "num_lt NegInf (Fin b) = True"
| "num_lt NegInf PosInf = True"
| "num_lt _ _ = False"

definition num_ge :: "jsnum \<Rightarrow> jsnum \<Rightarrow> bool" where
  "num_ge a b = (a \<noteq> NaN \<and> b \<noteq> NaN \<and> \<not> num_lt a b)"

text \<open>
  The conversions of the runtime that the program relies on but does not define are
  parameters of the model: the text of a number that is not a whole number of magnitude
  below \<open>2^53\<close>, the text of an array or object, the number a string or an object
  converts to, and \<open>JSON.parse\<close> (\<open>None\<close> when it throws) and \<open>JSON.stringify\<close>.
\<close>

record runtime =
  NumberToString :: "rat \<Rightarrow> string"
  ObjectToString :: "jsval \<Rightarrow> string"
  StringToNumber :: "string \<Rightarrow> jsnum"
  ObjectToNumber :: "jsval \<Rightarrow> jsnum"
  JSON_parse :: "string \<Rightarrow> jsval option"
  JSON_stringify :: "jsval \<Rightarrow> string"

fun digits :: "nat \<Rightarrow> string" where
  "digits n = (if n < 10 then [''0123456789'' ! n]
               else digits (n div 10) @ [''0123456789'' ! (n mod 10)])"

declare digits.simps [simp del]

text \<open>
  The text of a value inside a template literal \<open>`${v}`\<close>. JavaScript prints a number
  with the fewest digits that read back as the same double. For a whole number of
  magnitude below \<open>2^53\<close> these are its decimal digits; beyond that (and for fractions)
  they are not the exact expansion (\<open>2^60\<close> prints as 1152921504606847000), and the
  text is left to the runtime.
\<close>

definition num_text :: "runtime \<Rightarrow> jsnum \<Rightarrow> string" where
  "num_text rt n =
     (case n of
        NaN \<Rightarrow> ''NaN''
      | PosInf \<Rightarrow> ''Infinity''
      | NegInf \<Rightarrow> ''-Infinity''
      | Fin q \<Rightarrow>
          if q = of_int \<lfloor>q\<rfloor> \<and> \<bar>q\<bar> < 2 ^ 53
          then (if q < 0 then ''-'' else '''') @ digits (nat \<bar>\<lfloor>q\<rfloor>\<bar>)
          else NumberToString rt q)"

fun ToString :: "runtime \<Rightarrow> jsval \<Rightarrow> string" where
  "ToString rt JUndefined = ''undefined''"
| "ToString rt JNull = ''null''"
| "ToString rt (JBool b) = (if b then ''true'' else ''false'')"
| "ToString rt (JNum n) = num_text rt n"
| "ToString rt (JStr s) = s"
| "ToString rt (JArr xs) = ObjectToString rt (JArr xs)"
| "ToString rt (JObj kv) = ObjectToString rt (JObj kv)"

text \<open>The number a value converts to in a comparison with a number.\<close>

fun ToNumber :: "runtime \<Rightarrow> jsval \<Rightarrow> jsnum" where
  "ToNumber rt JUndefined = NaN"
| "ToNumber rt JNull = Fin 0"
| "ToNumber rt (JBool b) = Fin (if b then 1 else 0)"
| "ToNumber rt (JNum n) = n"
| "ToNumber rt (JStr s) = StringToNumber rt s"
| "ToNumber rt (JArr xs) = ObjectToNumber rt (JArr xs)"
| "ToNumber rt (JObj kv) = ObjectToNumber rt (JObj kv)"

text \<open>
  Property reads. A read on \<open>undefined\<close> or \<open>null\<close> throws a TypeError; a property
  that the value does not have reads as \<open>undefined\<close>. Only the three properties the
  program reads are modelled: \<open>v.rows\<close>, \<open>v.length\<close> and \<open>v[0]\<close>.
\<close>

definition own :: "(string \<times> jsval) list \<Rightarrow> string \<Rightarrow> jsval" where
  "own kv k = (case map_of kv k of Some v \<Rightarrow> v | None \<Rightarrow> JUndefined)"

fun get_rows :: "jsval \<Rightarrow> error + jsval" where
  "get_rows JUndefined = Inl TypeError"
| "get_rows JNull = Inl TypeError"
| "get_rows (JObj kv) = Inr (own kv ''rows'')"
| "get_rows _ = Inr JUndefined"

fun get_length :: "jsval \<Rightarrow> error + jsval" where
  "get_length JUndefined = Inl TypeError"
| "get_length JNull = Inl TypeError"
| "get_length (JObj kv) = Inr (own kv ''length'')"
| "get_length (JArr xs) = Inr (JNum (Fin (of_nat (length xs))))"
| "get_length (JStr s) = Inr (JNum (Fin (of_nat (length s))))"
| "get_length _ = Inr JUndefined"

fun get_0 :: "jsval \<Rightarrow> error + jsval" where
  "get_0 JUndefined = Inl TypeError"
| "get_0 JNull = Inl TypeError"
| "get_0 (JObj kv) = Inr (own kv ''0'')"
| "get_0 (JArr xs) = Inr (case xs of [] \<Rightarrow> JUndefined | x # _ \<Rightarrow> x)"
| "get_0 (JStr s) = Inr (case s of [] \<Rightarrow> JUndefined | c # _ \<Rightarrow> JStr [c])"
| "get_0 _ = Inr JUndefined"

text \<open>The \<open>length\<close> of an array, as a count.\<close>

fun array_length :: "jsval \<Rightarrow> nat" where
  "array_length (JArr xs) = length xs"
| "array_length _ = 0"


section \<open>The network\<close>

text \<open>
  \<open>UrlFetchApp.fetch(url, options)\<close> either throws or returns a response with a status
  code and a body (with \<open>muteHttpExceptions\<close> an HTTP error status is a response, not an
  exception). The state of the world that the library changes is the list of requests it
  has sent and the time it has slept; the outcome of a call may depend on both. A thrown
  value is represented by the text \<open>`${e}`\<close> gives for it.
\<close>

type_synonym exn = string

record http_response =
  responseCode :: int
  contentText :: string

record request =
  url :: string
  httpMethod :: string
  contentType :: string
  muteHttpExceptions :: bool
  payload :: string
  headers :: "(string \<times> jsval) list"

record net =
  sent :: "request list"
  slept :: nat

type_synonym transport = "net \<Rightarrow> request \<Rightarrow> exn + http_response"

text \<open>What every operation returns.\<close>

record api_response =
  code :: int
  content :: jsval
  rowsReturned :: nat


section \<open>The library (version with the \<open>app\<close> factory)\<close>

subsection \<open>normalizeRecords\<close>

definition normalizeRecords :: "jsval \<Rightarrow> jsval" where
  "normalizeRecords input =
     (if \<not> truthy input then JArr []
      else if isArray input then input else JArr [input])"

subsection \<open>parseRowsReturned\<close>

definition parseRowsReturned :: "jsval \<Rightarrow> error + nat" where
  "parseRowsReturned cont =
     (if isArray cont then Inr (array_length cont)
      else if truthy cont then
        (case get_rows cont of
           Inl e \<Rightarrow> Inl e
         | Inr rows \<Rightarrow> if isArray rows then Inr (array_length rows) else Inr 0)
      else Inr 0)"

subsection \<open>makeRequest\<close>

text \<open>The payload object: \<open>{Action, Rows}\<close>, and \<open>Properties\<close> assigned afterwards
  under \<open>if (selector)\<close>.\<close>

definition buildPayload :: "string \<Rightarrow> jsval \<Rightarrow> jsval \<Rightarrow> jsval" where
  "buildPayload action rows selector =
     (let fields = [(''Action'', JStr action), (''Rows'', rows)]
      in if truthy selector
         then JObj (fields @ [(''Properties'', JObj [(''Selector'', selector)])])
         else JObj fields)"

definition buildOptions :: "runtime \<Rightarrow> jsval \<Rightarrow> string \<Rightarrow> jsval \<Rightarrow> request" where
  "buildOptions rt accessKey u body =
     \<lparr> url = u, httpMethod = ''post'', contentType = ''application/json'',
       muteHttpExceptions = True, payload = JSON_stringify rt body,
       headers = [(''ApplicationAccessKey'', accessKey)] \<rparr>"

text \<open>
  The retry loop. It returns the response (\<open>None\<close> when the loop body never ran and
  \<open>response\<close> is still \<open>undefined\<close>) or the error thrown after the last attempt. With
  an infinite ceiling and a transport that always throws the loop does not end; the
  result of the model is then \<open>None\<close>.
\<close>

partial_function (option) fetchLoop ::
  "runtime \<Rightarrow> transport \<Rightarrow> jsval \<Rightarrow> request \<Rightarrow> nat \<Rightarrow> net
     \<Rightarrow> ((error + http_response option) \<times> net) option"
where
  "fetchLoop rt fetch maxRetries options attempts w =
     (if num_lt (Fin (of_nat attempts)) (ToNumber rt maxRetries) then
        (case fetch w options of
           Inr response \<Rightarrow> Some (Inr (Some response), w\<lparr>sent := sent w @ [options]\<rparr>)
         | Inl e \<Rightarrow>
             (let w1 = w\<lparr>sent := sent w @ [options]\<rparr>;
                  attempts1 = attempts + 1
              in if num_ge (Fin (of_nat attempts1)) (ToNumber rt maxRetries)
                 then Some (Inl (Error (''AppSheet API failed after ''
                                @ ToString rt maxRetries @ '' attempts: '' @ e)), w1)
                 else fetchLoop rt fetch maxRetries options attempts1
                        (w1\<lparr>slept := slept w1 + 500\<rparr>)))
      else Some (Inr None, w))"

text \<open>The part of \<open>makeRequest\<close> after the loop: status code, body, safe parse, row
  count.\<close>

definition parseContent :: "runtime \<Rightarrow> string \<Rightarrow> jsval" where
  "parseContent rt text =
     (case JSON_parse rt text of
        Some v \<Rightarrow> v
      | None \<Rightarrow> if truthy (JStr text) then JStr text else JNull)"

definition readResponse :: "runtime \<Rightarrow> http_response \<Rightarrow> error + api_response" where
  "readResponse rt response =
     (let c = responseCode response;
          text = contentText response;
          cont = parseContent rt text
      in case parseRowsReturned cont of
           Inl e \<Rightarrow> Inl e
         | Inr n \<Rightarrow> Inr \<lparr> code = c, content = cont, rowsReturned = n \<rparr>)"

text \<open>The request \<open>makeRequest\<close> sends: URL, payload and options, from its arguments
  (\<open>rows = []\<close> and \<open>selector = null\<close> by default; no caller passes \<open>method\<close>).\<close>

definition requestOptions ::
  "runtime \<Rightarrow> string \<Rightarrow> jsval \<Rightarrow> jsval \<Rightarrow> string \<Rightarrow> jsval \<Rightarrow> jsval \<Rightarrow> request"
where
  "requestOptions rt baseUrl accessKey table action rows0 selector0 =
     (let rows = dflt rows0 (JArr []);
          selector = dflt selector0 JNull;
          u = baseUrl @ ''/'' @ ToString rt table @ ''/Action''
      in buildOptions rt accessKey u (buildPayload action rows selector))"

definition makeRequest ::
  "runtime \<Rightarrow> transport \<Rightarrow> string \<Rightarrow> jsval \<Rightarrow> jsval \<Rightarrow> jsval \<Rightarrow> string \<Rightarrow> jsval \<Rightarrow> jsval
     \<Rightarrow> net \<Rightarrow> ((error + api_response) \<times> net) option"
where
  "makeRequest rt fetch baseUrl accessKey maxRetries table action rows0 selector0 w =
     (let options = requestOptions rt baseUrl accessKey table action rows0 selector0
      in case fetchLoop rt fetch maxRetries options 0 w of
           None \<Rightarrow> None
         | Some (Inl e, w') \<Rightarrow> Some (Inl e, w')
         | Some (Inr None, w') \<Rightarrow> Some (Inl TypeError, w')
         | Some (Inr (Some response), w') \<Rightarrow> Some (readResponse rt response, w'))"


subsection \<open>App.find, add, update, deleteRows\<close>

text \<open>An App instance is its \<open>CONFIG\<close>.\<close>

record App =
  appId :: jsval
  applicationAccessKey :: jsval
  appsheetRegion :: jsval
  baseUrl :: string
  maxRetries :: jsval

definition new_App :: "runtime \<Rightarrow> jsval \<Rightarrow> jsval \<Rightarrow> jsval \<Rightarrow> jsval \<Rightarrow> App" where
  "new_App rt appId' applicationAccessKey' appsheetRegion' maxRetries' =
     \<lparr> appId = appId', applicationAccessKey = applicationAccessKey',
       appsheetRegion = appsheetRegion',
       baseUrl = ''https://'' @ ToString rt appsheetRegion' @ ''/api/v2/apps/''
                 @ ToString rt appId' @ ''/tables'',
       maxRetries = maxRetries' \<rparr>"

text \<open>
  The selector that \<open>find\<close> builds before it calls \<open>makeRequest\<close>.
  \<open>orderBy.startsWith\<close> exists on strings only: a truthy \<open>orderBy\<close> of another type
  makes the call throw a TypeError.
\<close>

definition startsWith :: "string \<Rightarrow> string \<Rightarrow> bool" where
  "startsWith s p = (take (length p) s = p)"

definition find_selector ::
  "runtime \<Rightarrow> jsval \<Rightarrow> jsval \<Rightarrow> jsval \<Rightarrow> jsval \<Rightarrow> jsval \<Rightarrow> error + string"
where
  "find_selector rt tableName filterCondition orderBy desc0 limit =
     (let desc = dflt desc0 (JBool False);
          filter = (if truthy filterCondition then filterCondition else JStr ''TRUE'');
          selector = ''Filter('' @ ToString rt tableName @ '', '' @ ToString rt filter @ '')''
      in case (if truthy orderBy then
                 (case orderBy of
                    JStr s \<Rightarrow>
                      (let col = (if startsWith s ''['' then s else ''['' @ s @ '']'');
                           isAsc = (if truthy desc then ''FALSE'' else ''TRUE'')
                       in Inr (''OrderBy('' @ selector @ '', '' @ col @ '', '' @ isAsc @ '')''))
                  | _ \<Rightarrow> Inl TypeError)
               else Inr selector) of
           Inl e \<Rightarrow> Inl e
         | Inr selector \<Rightarrow>
             Inr (if typeof limit = ''number'' \<and> num_lt (Fin 0) (ToNumber rt limit)
                  then ''Top('' @ selector @ '', '' @ ToString rt limit @ '')''
                  else selector))"

definition App_find ::
  "runtime \<Rightarrow> transport \<Rightarrow> App \<Rightarrow> jsval \<Rightarrow> jsval \<Rightarrow> jsval \<Rightarrow> jsval \<Rightarrow> jsval
     \<Rightarrow> net \<Rightarrow> ((error + api_response) \<times> net) option"
where
  "App_find rt fetch this tableName filterCondition orderBy desc limit w =
     (case find_selector rt tableName filterCondition orderBy desc limit of
        Inl e \<Rightarrow> Some (Inl e, w)
      | Inr selector \<Rightarrow>
          makeRequest rt fetch (baseUrl this) (applicationAccessKey this) (maxRetries this)
            tableName ''Find'' JUndefined (JStr selector) w)"

definition App_add ::
  "runtime \<Rightarrow> transport \<Rightarrow> App \<Rightarrow> jsval \<Rightarrow> jsval \<Rightarrow> net \<Rightarrow> ((error + api_response) \<times> net) option"
where
  "App_add rt fetch this tableName records w =
     makeRequest rt fetch (baseUrl this) (applicationAccessKey this) (maxRetries this)
       tableName ''Add'' (normalizeRecords records) JUndefined w"

definition App_update ::
  "runtime \<Rightarrow> transport \<Rightarrow> App \<Rightarrow> jsval \<Rightarrow> jsval \<Rightarrow> net \<Rightarrow> ((error + api_response) \<times> net) option"
where
  "App_update rt fetch this tableName records w =
     makeRequest rt fetch (baseUrl this) (applicationAccessKey this) (maxRetries this)
       tableName ''Edit'' (normalizeRecords records) JUndefined w"

definition App_deleteRows ::
  "runtime \<Rightarrow> transport \<Rightarrow> App \<Rightarrow> jsval \<Rightarrow> jsval \<Rightarrow> net \<Rightarrow> ((error + api_response) \<times> net) option"
where
  "App_deleteRows rt fetch this tableName records w =
     makeRequest rt fetch (baseUrl this) (applicationAccessKey this) (maxRetries this)
       tableName ''Delete'' (normalizeRecords records) JUndefined w"

subsection \<open>The factory \<open>app\<close>\<close>

text \<open>
  \<open>appsheetRegion\<close> and \<open>maxRetries\<close> have defaults. In the first two tests the third
  disjunct reads \<open>.length\<close>; it is reached only for a non-empty string, where the read
  cannot throw.
\<close>

definition app :: "runtime \<Rightarrow> jsval \<Rightarrow> jsval \<Rightarrow> jsval \<Rightarrow> jsval \<Rightarrow> error + App" where
  "app rt appId' applicationAccessKey' appsheetRegion0 maxRetries0 =
     (let appsheetRegion' = dflt appsheetRegion0 (JStr ''www.appsheet.com'');
          maxRetries' = dflt maxRetries0 (JNum (Fin 2))
      in if \<not> truthy appId' \<or> typeof appId' \<noteq> ''string''
            \<or> get_length appId' = Inr (JNum (Fin 0))
         then Inl (Error (''[AppSheet] - \"appId\" must be a valid string. Received \"''
                          @ typeof appId' @ ''\"''))
         else if \<not> truthy applicationAccessKey' \<or> typeof applicationAccessKey' \<noteq> ''string''
                 \<or> get_length applicationAccessKey' = Inr (JNum (Fin 0))
         then Inl (Error (''[AppSheet] - \"applicationAccessKey\" must be a valid, non-empty string. Received \"''
                          @ ToString rt applicationAccessKey' @ ''\"''))
         else if appsheetRegion' \<noteq> JStr ''www.appsheet.com''
                 \<and> appsheetRegion' \<noteq> JStr ''eu.appsheet.com''
         then Inl (Error (''[AppSheet] - \"appsheetRegion\" must be either \"www.appsheet.com\" or \"eu.appsheet.com\". Received \"''
                          @ ToString rt appsheetRegion' @ ''\"''))
         else if typeof maxRetries' \<noteq> ''number'' \<or> num_lt (ToNumber rt maxRetries') (Fin 1)
         then Inl (Error (''[AppSheet] - \"maxRetries\" must be a valid non-zero number. Received \"''
                          @ ToString rt maxRetries' @ ''\"''))
         else Inr (new_App rt appId' applicationAccessKey' appsheetRegion' maxRetries'))"


section \<open>The library (main.js, the module with \<open>findByKey\<close>)\<close>

text \<open>
  In main.js the configuration is the module's \<open>CONFIG\<close> object and \<open>BASE_URL\<close> is
  computed from it once. Payload, options, retry loop and selector are the same code as
  above. The response is read differently: \<open>JSON.parse\<close> is not guarded, and only an
  array counts rows.
\<close>

record main_js =
  CONFIG_apiKey :: jsval
  CONFIG_appId :: jsval
  CONFIG_region :: jsval
  CONFIG_maxRetries :: jsval
  BASE_URL :: string

definition main_init :: main_js where
  "main_init =
     \<lparr> CONFIG_apiKey = JStr [],
       CONFIG_appId = JStr ''98c5f507-7163-4f46-ab8b-f946a9839222'',
       CONFIG_region = JStr ''www.appsheet.com'',
       CONFIG_maxRetries = JNum (Fin 2),
       BASE_URL = ''https://'' @ ''www.appsheet.com'' @ ''/api/v2/apps/''
                  @ ''98c5f507-7163-4f46-ab8b-f946a9839222'' @ ''/tables'' \<rparr>"

definition main_readResponse :: "runtime \<Rightarrow> http_response \<Rightarrow> error + api_response" where
  "main_readResponse rt response =
     (let c = responseCode response;
          text = contentText response
      in case JSON_parse rt text of
           None \<Rightarrow> Inl SyntaxError
         | Some cont \<Rightarrow>
             Inr \<lparr> code = c, content = cont,
                   rowsReturned = (if isArray cont then array_length cont else 0) \<rparr>)"

definition main_makeRequest ::
  "runtime \<Rightarrow> transport \<Rightarrow> main_js \<Rightarrow> jsval \<Rightarrow> string \<Rightarrow> jsval \<Rightarrow> jsval
     \<Rightarrow> net \<Rightarrow> ((error + api_response) \<times> net) option"
where
  "main_makeRequest rt fetch M table action rows0 selector0 w =
     (let options = requestOptions rt (BASE_URL M) (CONFIG_apiKey M) table action rows0 selector0
      in case fetchLoop rt fetch (CONFIG_maxRetries M) options 0 w of
           None \<Rightarrow> None
         | Some (Inl e, w') \<Rightarrow> Some (Inl e, w')
         | Some (Inr None, w') \<Rightarrow> Some (Inl TypeError, w')
         | Some (Inr (Some response), w') \<Rightarrow> Some (main_readResponse rt response, w'))"

definition main_find ::
  "runtime \<Rightarrow> transport \<Rightarrow> main_js \<Rightarrow> jsval \<Rightarrow> jsval \<Rightarrow> jsval \<Rightarrow> jsval \<Rightarrow> jsval
     \<Rightarrow> net \<Rightarrow> ((error + api_response) \<times> net) option"
where
  "main_find rt fetch M tableName filterCondition orderBy desc limit w =
     (case find_selector rt tableName filterCondition orderBy desc limit of
        Inl e \<Rightarrow> Some (Inl e, w)
      | Inr selector \<Rightarrow>
          main_makeRequest rt fetch M tableName ''Find'' JUndefined (JStr selector) w)"

text \<open>\<open>findByKey\<close>: the filter it passes to \<open>find\<close>, and what it does with the result.\<close>

definition keyFilter :: "runtime \<Rightarrow> jsval \<Rightarrow> jsval \<Rightarrow> string" where
  "keyFilter rt keyColumn keyValue =
     ''['' @ ToString rt keyColumn @ ''] = \"'' @ ToString rt keyValue @ ''\"''"

definition firstMatch :: "runtime \<Rightarrow> api_response \<Rightarrow> error + api_response" where
  "firstMatch rt result =
     (if code result \<noteq> 200 then Inr result
      else case get_length (content result) of
             Inl e \<Rightarrow> Inl e
           | Inr len \<Rightarrow>
               (case (if num_lt (Fin 0) (ToNumber rt len) then get_0 (content result)
                      else Inr JNull) of
                  Inl e \<Rightarrow> Inl e
                | Inr match \<Rightarrow>
                    Inr (result\<lparr> content := match,
                                 rowsReturned := (if truthy match then 1 else 0) \<rparr>)))"

definition main_findByKey ::
  "runtime \<Rightarrow> transport \<Rightarrow> main_js \<Rightarrow> jsval \<Rightarrow> jsval \<Rightarrow> jsval
     \<Rightarrow> net \<Rightarrow> ((error + api_response) \<times> net) option"
where
  "main_findByKey rt fetch M tableName keyColumn keyValue w =
     (case main_find rt fetch M tableName (JStr (keyFilter rt keyColumn keyValue))
             JUndefined JUndefined JUndefined w of
        None \<Rightarrow> None
      | Some (Inl e, w') \<Rightarrow> Some (Inl e, w')
      | Some (Inr result, w') \<Rightarrow> Some (firstMatch rt result, w'))"


section \<open>Notions used to state the properties\<close>

text \<open>The state of the world after \<open>i\<close> failed attempts at \<open>req\<close>, each followed by
  the pause of 500 ms.\<close>

definition retried :: "net \<Rightarrow> request \<Rightarrow> nat \<Rightarrow> net" where
  "retried w req i = w\<lparr>sent := sent w @ replicate i req, slept := slept w + 500 * i\<rparr>"

text \<open>
  What a finished run of the retry loop, started with \<open>a\<close> failures counted in state
  \<open>w\<close>, has done: it sent the request \<open>n\<close> times and nothing else, every call but the
  last one threw, and the result is what the last call gave (or no call was made).
\<close>

definition loop_trace ::
  "runtime \<Rightarrow> transport \<Rightarrow> jsval \<Rightarrow> request \<Rightarrow> nat \<Rightarrow> net
     \<Rightarrow> (error + http_response option) \<times> net \<Rightarrow> bool"
where
  "loop_trace rt fetch mr req a w y =
     (\<exists>n. sent (snd y) = sent w @ replicate n req
        \<and> (\<forall>i. Suc i < n \<longrightarrow> isl (fetch (retried w req i) req))
        \<and> (case fst y of
             Inr None \<Rightarrow> n = 0 \<and> \<not> num_lt (Fin (of_nat a)) (ToNumber rt mr)
           | Inr (Some resp) \<Rightarrow> 0 < n \<and> fetch (retried w req (n - 1)) req = Inr resp
           | Inl err \<Rightarrow> 0 < n \<and> isl (fetch (retried w req (n - 1)) req)))"

text \<open>
  The selector as the specification words it, for typed arguments: an absent argument is
  \<open>None\<close>. Filter, then order, then limit.
\<close>

definition buildSelector_spec ::
  "runtime \<Rightarrow> string \<Rightarrow> string option \<Rightarrow> string option \<Rightarrow> bool \<Rightarrow> jsnum option \<Rightarrow> string"
where
  "buildSelector_spec rt t f c d n =
     (let base = ''Filter('' @ t @ '', '' @ (case f of None \<Rightarrow> ''TRUE'' | Some cond \<Rightarrow> cond) @ '')'';
          ordered =
            (case c of
               None \<Rightarrow> base
             | Some col \<Rightarrow>
                 ''OrderBy('' @ base @ '', ''
                   @ (if col \<noteq> [] \<and> hd col = CHR ''['' then col else ''['' @ col @ '']'')
                   @ '', '' @ (if d then ''FALSE'' else ''TRUE'') @ '')'')
      in case n of
           None \<Rightarrow> ordered
         | Some l \<Rightarrow>
             if num_lt (Fin 0) l then ''Top('' @ ordered @ '', '' @ num_text rt l @ '')''
             else ordered)"

definition opt_str :: "string option \<Rightarrow> jsval" where
  "opt_str a = (case a of None \<Rightarrow> JUndefined | Some s \<Rightarrow> JStr s)"

definition opt_num :: "jsnum option \<Rightarrow> jsval" where
  "opt_num a = (case a of None \<Rightarrow> JUndefined | Some n \<Rightarrow> JNum n)"

text \<open>
  What the code takes as given: a string argument that is not the empty string, and a
  limit that is a number (whatever else is passed as limit counts as no limit).
\<close>

definition given_str :: "string option \<Rightarrow> string option" where
  "given_str a = (if a = Some [] then None else a)"

definition limit_number :: "jsval \<Rightarrow> jsnum option" where
  "limit_number l = (case l of JNum x \<Rightarrow> Some x | _ \<Rightarrow> None)"

text \<open>
  A runtime and transports for concrete runs: the parser knows three bodies, the text of
  1.5 is known, and the transport throws until \<open>k\<close> requests have been sent and answers
  \<open>resp\<close> from then on.
\<close>

definition rt_demo :: runtime where
  "rt_demo =
     \<lparr> NumberToString = (\<lambda>q. if q = 3 / 2 then ''1.5'' else ''?''),
       ObjectToString = (\<lambda>v. ''[object Object]''),
       StringToNumber = (\<lambda>s. NaN),
       ObjectToNumber = (\<lambda>v. NaN),
       JSON_parse = (\<lambda>s. if s = ''[]'' then Some (JArr [])
                          else if s = ''[{\"id\":\"7\"}]'' then Some (JArr [JObj [(''id'', JStr ''7'')]])
                          else if s = ''{\"rows\":[{\"a\":1}]}''
                            then Some (JObj [(''rows'', JArr [JObj [(''a'', JNum (Fin 1))]])])
                          else None),
       JSON_stringify = (\<lambda>v. ''{}'') \<rparr>"

definition failing_then :: "nat \<Rightarrow> http_response \<Rightarrow> transport" where
  "failing_then k resp w req =
     (if length (sent w) < k then Inl ''Exception: Timeout'' else Inr resp)"

definition no_net :: net where
  "no_net = \<lparr> sent = [], slept = 0 \<rparr>"

definition key_req_demo :: request where
  "key_req_demo = requestOptions rt_demo (BASE_URL main_init) (CONFIG_apiKey main_init)
                    (JStr ''users'') ''Find'' JUndefined (JStr ''Filter(users, [id] = \"7\")'')"

definition req_demo :: request where
  "req_demo = requestOptions rt_demo ''https://www.appsheet.com/api/v2/apps/A/tables''
                (JStr ''key'') (JStr ''T'') ''Find'' JUndefined JUndefined"


section \<open>Properties\<close>

subsection \<open>The retry loop\<close>

lemma retried_0 [simp]: "retried w req 0 = w"
  by (simp add: retried_def)

lemma retried_Suc:
  "retried (w\<lparr>sent := sent w @ [req], slept := slept w + 500\<rparr>) req i = retried w req (Suc i)"
  by (simp add: retried_def)

lemma fetchLoop_response:
  assumes "num_lt (Fin (of_nat a)) (ToNumber rt mr)" and "fetch w req = Inr resp"
  shows "fetchLoop rt fetch mr req a w = Some (Inr (Some resp), w\<lparr>sent := sent w @ [req]\<rparr>)"
  using assms by (subst fetchLoop.simps) simp



lemma fetchLoop_skip:
  assumes "\<not> num_lt (Fin (of_nat a)) (ToNumber rt mr)"
  shows "fetchLoop rt fetch mr req a w = Some (Inr None, w)"
  using assms by (subst fetchLoop.simps) simp





lemma num_lt_after_retry:
  "num_lt x m \<Longrightarrow> \<not> num_ge (Fin y) m \<Longrightarrow> num_lt (Fin y) m"
  by (cases m) (auto simp: num_ge_def)

lemma loop_trace_step:
  assumes e: "fetch w req = Inl e"
    and tr: "loop_trace rt fetch mr req (Suc a) (w\<lparr>sent := sent w @ [req], slept := slept w + 500\<rparr>) y"
    and lt: "num_lt (Fin (of_nat (Suc a))) (ToNumber rt mr)"
  shows "loop_trace rt fetch mr req a w y"
proof -
  let ?w1 = "w\<lparr>sent := sent w @ [req], slept := slept w + 500\<rparr>"
  from tr obtain n where n: "sent (snd y) = sent ?w1 @ replicate n req"
    and before: "\<forall>i. Suc i < n \<longrightarrow> isl (fetch (retried ?w1 req i) req)"
    and last: "(case fst y of
             Inr None \<Rightarrow> n = 0 \<and> \<not> num_lt (Fin (of_nat (Suc a))) (ToNumber rt mr)
           | Inr (Some resp) \<Rightarrow> 0 < n \<and> fetch (retried ?w1 req (n - 1)) req = Inr resp
           | Inl err \<Rightarrow> 0 < n \<and> isl (fetch (retried ?w1 req (n - 1)) req))"
    unfolding loop_trace_def by blast
  from last lt have pos: "0 < n" by (auto split: sum.splits option.splits)
  have 1: "sent (snd y) = sent w @ replicate (Suc n) req"
    using n by (simp add: replicate_app_Cons_same)
  have 2: "\<forall>i. Suc i < Suc n \<longrightarrow> isl (fetch (retried w req i) req)"
  proof (intro allI impI)
    fix i assume "Suc i < Suc n"
    show "isl (fetch (retried w req i) req)"
    proof (cases i)
      case 0
      then show ?thesis using e by simp
    next
      case (Suc j)
      with \<open>Suc i < Suc n\<close> before have "isl (fetch (retried ?w1 req j) req)" by simp
      then show ?thesis using Suc by (simp add: retried_Suc)
    qed
  qed
  have 3: "(case fst y of
             Inr None \<Rightarrow> Suc n = 0 \<and> \<not> num_lt (Fin (of_nat a)) (ToNumber rt mr)
           | Inr (Some resp) \<Rightarrow> 0 < Suc n \<and> fetch (retried w req (Suc n - 1)) req = Inr resp
           | Inl err \<Rightarrow> 0 < Suc n \<and> isl (fetch (retried w req (Suc n - 1)) req))"
    using last lt pos retried_Suc [of w req "n - 1"]
    by (auto split: sum.splits option.splits)
  from 1 2 3 show ?thesis unfolding loop_trace_def by blast
qed

lemma fetchLoop_trace:
  assumes run: "fetchLoop rt fetch mr req a w = Some y"
  shows "loop_trace rt fetch mr req a w y"
proof (rule fetchLoop.raw_induct [where P = loop_trace, OF _ run], goal_cases)
  case (1 loop rt fetch mr req a w y)
  note prems = "1"(2) and IH = "1"(1)
  show ?case
  proof (cases "num_lt (Fin (of_nat a)) (ToNumber rt mr)")
    case False
    with prems have "y = (Inr None, w)" by simp
    with False show ?thesis by (simp add: loop_trace_def)
  next
    case lt: True
    show ?thesis
    proof (cases "fetch w req")
      case (Inr resp)
      with lt prems have "y = (Inr (Some resp), w\<lparr>sent := sent w @ [req]\<rparr>)" by simp
      with Inr show ?thesis
        unfolding loop_trace_def by (intro exI [of _ 1]) simp
    next
      case (Inl e)
      show ?thesis
      proof (cases "num_ge (Fin (of_nat (Suc a))) (ToNumber rt mr)")
        case True
        with lt Inl prems have "fst y = Inl (Error (''AppSheet API failed after ''
            @ ToString rt mr @ '' attempts: '' @ e))" "snd y = w\<lparr>sent := sent w @ [req]\<rparr>"
          by (auto simp: Let_def)
        with Inl show ?thesis
          unfolding loop_trace_def by (intro exI [of _ 1]) simp
      next
        case False
        with lt Inl prems
        have "loop rt fetch mr req (Suc a) (w\<lparr>sent := sent w @ [req], slept := slept w + 500\<rparr>) = Some y"
          by (simp add: Let_def)
        then have "loop_trace rt fetch mr req (Suc a) (w\<lparr>sent := sent w @ [req], slept := slept w + 500\<rparr>) y"
          by (rule IH)
        moreover have "num_lt (Fin (of_nat (Suc a))) (ToNumber rt mr)"
          using lt False by (rule num_lt_after_retry)
        ultimately show ?thesis
          using loop_trace_step [of fetch w req e rt mr a y] Inl by simp
      qed
    qed
  qed
qed


subsection \<open>Reading the response\<close>

lemma parseRowsReturned_total:
  "parseRowsReturned c =
     Inr (case c of
            JArr xs \<Rightarrow> length xs
          | JObj kv \<Rightarrow> (case map_of kv ''rows'' of Some (JArr rs) \<Rightarrow> length rs | _ \<Rightarrow> 0)
          | _ \<Rightarrow> 0)"
  by (cases c)
     (auto simp: parseRowsReturned_def own_def split: option.splits jsval.splits)

lemma parseContent_eq:
  "parseContent rt body =
     (case JSON_parse rt body of Some v \<Rightarrow> v | None \<Rightarrow> if body = [] then JNull else JStr body)"
  by (simp add: parseContent_def)

lemma readResponse_eq:
  "readResponse rt resp =
     Inr \<lparr> code = responseCode resp, content = parseContent rt (contentText resp),
           rowsReturned =
             (case parseContent rt (contentText resp) of
                JArr xs \<Rightarrow> length xs
              | JObj kv \<Rightarrow> (case map_of kv ''rows'' of Some (JArr rs) \<Rightarrow> length rs | _ \<Rightarrow> 0)
              | _ \<Rightarrow> 0) \<rparr>"
  by (simp add: readResponse_def Let_def parseRowsReturned_total)

text \<open>
  C3. Reading a response never throws, whatever the status and the body: the result is a
  response object with that status; its content is the parsed body, or on a parse failure
  the raw body text, or \<open>null\<close> when the body is empty; \<open>rowsReturned\<close> is the
  length of the content when it is an array, the length of its \<open>rows\<close> when it is an
  object whose \<open>rows\<close> is an array, and 0 in every other case.
\<close>

theorem readResponse_never_throws:
  "\<exists>c n. readResponse rt \<lparr>responseCode = status, contentText = body\<rparr>
            = Inr \<lparr>code = status, content = c, rowsReturned = n\<rparr>
     \<and> c = (case JSON_parse rt body of
              Some v \<Rightarrow> v
            | None \<Rightarrow> if body = [] then JNull else JStr body)
     \<and> n = (case c of
              JArr xs \<Rightarrow> length xs
            | JObj kv \<Rightarrow> (case map_of kv ''rows'' of Some (JArr rs) \<Rightarrow> length rs | _ \<Rightarrow> 0)
            | _ \<Rightarrow> 0)"
  by (simp add: readResponse_eq parseContent_eq)

lemma makeRequest_of_loop:
  "makeRequest rt fetch b key mr t act rows sel w =
     (case fetchLoop rt fetch mr (requestOptions rt b key t act rows sel) 0 w of
        None \<Rightarrow> None
      | Some (Inl e, w') \<Rightarrow> Some (Inl e, w')
      | Some (Inr None, w') \<Rightarrow> Some (Inl TypeError, w')
      | Some (Inr (Some response), w') \<Rightarrow> Some (readResponse rt response, w'))"
  by (simp add: makeRequest_def Let_def)

lemma makeRequest_sent:
  assumes "makeRequest rt fetch b key mr t act rows sel w = Some (res, w')"
  shows "\<exists>n. sent w' = sent w @ replicate n (requestOptions rt b key t act rows sel)"
proof -
  let ?req = "requestOptions rt b key t act rows sel"
  from assms obtain y where y: "fetchLoop rt fetch mr ?req 0 w = Some y" and w': "snd y = w'"
    by (auto simp: makeRequest_of_loop split: option.splits sum.splits prod.splits)
  from fetchLoop_trace [OF y] w' show ?thesis
    unfolding loop_trace_def by blast
qed

text \<open>
  C5. Once the transport returns an HTTP response the loop ends with it and sends nothing
  more, whatever the status code; \<open>makeRequest\<close> then completes normally with that
  status code in its result. In every run of the loop that ends, each call before the
  last one threw: only an exception leads to another attempt.
\<close>

theorem http_response_ends_retry:
  "(num_lt (Fin (of_nat a)) (ToNumber rt mr) \<and> fetch w req = Inr resp
      \<longrightarrow> fetchLoop rt fetch mr req a w = Some (Inr (Some resp), w\<lparr>sent := sent w @ [req]\<rparr>))
   \<and> (num_lt (Fin 0) (ToNumber rt mr) \<and> fetch w (requestOptions rt b key t act rows sel) = Inr resp
      \<longrightarrow> (\<exists>r. makeRequest rt fetch b key mr t act rows sel w
                  = Some (Inr r, w\<lparr>sent := sent w @ [requestOptions rt b key t act rows sel]\<rparr>)
              \<and> code r = responseCode resp))
   \<and> (\<forall>y. fetchLoop rt fetch mr req a w = Some y \<longrightarrow> loop_trace rt fetch mr req a w y)"
proof (intro conjI impI allI)
  assume "num_lt (Fin (of_nat a)) (ToNumber rt mr) \<and> fetch w req = Inr resp"
  then show "fetchLoop rt fetch mr req a w = Some (Inr (Some resp), w\<lparr>sent := sent w @ [req]\<rparr>)"
    using fetchLoop_response [of a rt mr fetch w req resp] by simp
next
  let ?req = "requestOptions rt b key t act rows sel"
  assume "num_lt (Fin 0) (ToNumber rt mr) \<and> fetch w ?req = Inr resp"
  then have "fetchLoop rt fetch mr ?req 0 w = Some (Inr (Some resp), w\<lparr>sent := sent w @ [?req]\<rparr>)"
    using fetchLoop_response [of 0 rt mr fetch w ?req resp] by simp
  then show "\<exists>r. makeRequest rt fetch b key mr t act rows sel w
                  = Some (Inr r, w\<lparr>sent := sent w @ [?req]\<rparr>) \<and> code r = responseCode resp"
    by (simp add: makeRequest_of_loop readResponse_eq)
next
  fix y assume "fetchLoop rt fetch mr req a w = Some y"
  then show "loop_trace rt fetch mr req a w y" by (rule fetchLoop_trace)
qed






theorem http_response_ends_retry_witness:
  "fetchLoop rt_demo (failing_then 0 \<lparr>responseCode = 500, contentText = ''Internal Server Error''\<rparr>)
       (JNum (Fin 2)) req_demo 0 no_net
     = Some (Inr (Some \<lparr>responseCode = 500, contentText = ''Internal Server Error''\<rparr>),
             \<lparr>sent = [req_demo], slept = 0\<rparr>)
   \<and> (\<exists>r. makeRequest rt_demo
              (failing_then 0 \<lparr>responseCode = 500, contentText = ''Internal Server Error''\<rparr>)
              ''https://www.appsheet.com/api/v2/apps/A/tables'' (JStr ''key'') (JNum (Fin 2))
              (JStr ''T'') ''Find'' JUndefined JUndefined no_net
            = Some (Inr r, \<lparr>sent = [req_demo], slept = 0\<rparr>) \<and> code r = 500)
   \<and> (\<exists>n>0. [req_demo] = sent no_net @ replicate n req_demo)"
proof -
  let ?r = "\<lparr>responseCode = 500, contentText = ''Internal Server Error''\<rparr>"
  have lt: "num_lt (Fin (of_nat 0)) (ToNumber rt_demo (JNum (Fin 2)))" by simp
  have f: "failing_then 0 ?r no_net req_demo = Inr ?r" by (simp add: failing_then_def)
  note T = http_response_ends_retry [where a = 0 and rt = rt_demo and mr = "JNum (Fin 2)"
      and fetch = "failing_then 0 ?r" and w = no_net and req = req_demo and resp = ?r
      and b = "''https://www.appsheet.com/api/v2/apps/A/tables''" and key = "JStr ''key''"
      and t = "JStr ''T''" and act = "''Find''" and rows = JUndefined and sel = JUndefined]
  from T lt f have run: "fetchLoop rt_demo (failing_then 0 ?r) (JNum (Fin 2)) req_demo 0 no_net
     = Some (Inr (Some ?r), \<lparr>sent = [req_demo], slept = 0\<rparr>)"
    by (simp add: no_net_def)
  from T lt f have mk: "\<exists>r. makeRequest rt_demo (failing_then 0 ?r)
              ''https://www.appsheet.com/api/v2/apps/A/tables'' (JStr ''key'') (JNum (Fin 2))
              (JStr ''T'') ''Find'' JUndefined JUndefined no_net
            = Some (Inr r, \<lparr>sent = [req_demo], slept = 0\<rparr>) \<and> code r = 500"
    by (simp add: no_net_def req_demo_def [symmetric])
  from T run have "loop_trace rt_demo (failing_then 0 ?r) (JNum (Fin 2)) req_demo 0 no_net
        (Inr (Some ?r), \<lparr>sent = [req_demo], slept = 0\<rparr>)"
    by blast
  then have "\<exists>n>0. [req_demo] = sent no_net @ replicate n req_demo"
    unfolding loop_trace_def by auto
  with run mk show ?thesis by blast
qed

lemma truthy_dflt_JNull [simp]: "truthy (dflt sel JNull) = truthy sel"
  by (simp add: dflt_def)

lemma payload_requestOptions:
  "payload (requestOptions rt b key t act rows sel)
     = JSON_stringify rt (buildPayload act (dflt rows (JArr [])) (dflt sel JNull))"
  by (simp add: requestOptions_def buildOptions_def Let_def)

text \<open>
  C6. The payload that goes on the wire is the serialisation of \<open>{Action, Rows}\<close>,
  with \<open>Properties: {Selector: selector}\<close> added exactly when the selector is truthy
  (a non-empty string); without a selector the key \<open>Properties\<close> is absent, and it
  never holds \<open>null\<close>. Every request a call of \<open>makeRequest\<close> sends is this one.
\<close>

theorem payload_properties_only_with_selector:
  "(truthy sel \<longrightarrow>
      payload (requestOptions rt b key t act rows sel)
        = JSON_stringify rt (JObj [(''Action'', JStr act), (''Rows'', dflt rows (JArr [])),
                                   (''Properties'', JObj [(''Selector'', sel)])]))
   \<and> (\<not> truthy sel \<longrightarrow>
      payload (requestOptions rt b key t act rows sel)
        = JSON_stringify rt (JObj [(''Action'', JStr act), (''Rows'', dflt rows (JArr []))]))
   \<and> (\<forall>kv. buildPayload act rows sel = JObj kv \<longrightarrow>
         map_of kv ''Properties'' \<noteq> Some JNull
         \<and> (\<not> truthy sel \<longrightarrow> ''Properties'' \<notin> fst ` set kv))
   \<and> (\<forall>res w'. makeRequest rt fetch b key mr t act rows sel w = Some (res, w') \<longrightarrow>
         (\<forall>r \<in> set (drop (length (sent w)) (sent w')).
            r = requestOptions rt b key t act rows sel))"
proof (intro conjI impI allI)
  assume "truthy sel"
  then show "payload (requestOptions rt b key t act rows sel)
        = JSON_stringify rt (JObj [(''Action'', JStr act), (''Rows'', dflt rows (JArr [])),
                                   (''Properties'', JObj [(''Selector'', sel)])])"
    by (auto simp: payload_requestOptions buildPayload_def Let_def dflt_def)
next
  assume "\<not> truthy sel"
  then show "payload (requestOptions rt b key t act rows sel)
        = JSON_stringify rt (JObj [(''Action'', JStr act), (''Rows'', dflt rows (JArr []))])"
    by (simp add: payload_requestOptions buildPayload_def Let_def)
next
  fix kv assume "buildPayload act rows sel = JObj kv"
  then show "map_of kv ''Properties'' \<noteq> Some JNull"
    by (auto simp: buildPayload_def Let_def split: if_splits)
next
  fix kv assume "buildPayload act rows sel = JObj kv" and "\<not> truthy sel"
  then show "''Properties'' \<notin> fst ` set kv"
    by (auto simp: buildPayload_def Let_def split: if_splits)
next
  fix res w' assume "makeRequest rt fetch b key mr t act rows sel w = Some (res, w')"
  from makeRequest_sent [OF this]
  show "\<forall>r \<in> set (drop (length (sent w)) (sent w')). r = requestOptions rt b key t act rows sel"
    by auto
qed

theorem payload_properties_only_with_selector_witness:
  "payload (requestOptions rt_demo ''https://www.appsheet.com/api/v2/apps/A/tables'' (JStr ''key'')
              (JStr ''T'') ''Find'' JUndefined (JStr ''Filter(T, TRUE)''))
     = JSON_stringify rt_demo
         (JObj [(''Action'', JStr ''Find''), (''Rows'', JArr []),
                (''Properties'', JObj [(''Selector'', JStr ''Filter(T, TRUE)'')])])
   \<and> payload req_demo
     = JSON_stringify rt_demo (JObj [(''Action'', JStr ''Find''), (''Rows'', JArr [])])
   \<and> map_of [(''Action'', JStr ''Add''), (''Rows'', JArr [])] ''Properties'' \<noteq> Some JNull
   \<and> ''Properties'' \<notin> fst ` set [(''Action'', JStr ''Add''), (''Rows'', JArr [])]
   \<and> list_all (\<lambda>r. r = req_demo) (drop (length (sent no_net)) [req_demo])"
proof -
  let ?b = "''https://www.appsheet.com/api/v2/apps/A/tables''"
  let ?ok = "\<lparr>responseCode = 200, contentText = ''[]''\<rparr>"
  note T1 = payload_properties_only_with_selector [where sel = "JStr ''Filter(T, TRUE)''"
      and rt = rt_demo and b = ?b and key = "JStr ''key''" and t = "JStr ''T''"
      and act = "''Find''" and rows = JUndefined]
  note T2 = payload_properties_only_with_selector [where sel = JUndefined
      and rt = rt_demo and b = ?b and key = "JStr ''key''" and t = "JStr ''T''"
      and act = "''Find''" and rows = JUndefined and fetch = "failing_then 0 ?ok"
      and mr = "JNum (Fin 2)" and w = no_net]
  note T3 = payload_properties_only_with_selector [where sel = JNull
      and act = "''Add''" and rows = "JArr []"]
  have bp: "buildPayload ''Add'' (JArr []) JNull = JObj [(''Action'', JStr ''Add''), (''Rows'', JArr [])]"
    by (simp add: buildPayload_def)
  have run: "makeRequest rt_demo (failing_then 0 ?ok) ?b (JStr ''key'') (JNum (Fin 2)) (JStr ''T'')
               ''Find'' JUndefined JUndefined no_net
             = Some (readResponse rt_demo ?ok, \<lparr>sent = [req_demo], slept = 0\<rparr>)"
    by (simp add: makeRequest_of_loop fetchLoop_response failing_then_def no_net_def
        req_demo_def [symmetric])
  have 1: "payload (requestOptions rt_demo ?b (JStr ''key'') (JStr ''T'') ''Find'' JUndefined
                      (JStr ''Filter(T, TRUE)''))
     = JSON_stringify rt_demo
         (JObj [(''Action'', JStr ''Find''), (''Rows'', JArr []),
                (''Properties'', JObj [(''Selector'', JStr ''Filter(T, TRUE)'')])])"
    using T1 by (simp add: dflt_def)
  have 2: "payload req_demo
     = JSON_stringify rt_demo (JObj [(''Action'', JStr ''Find''), (''Rows'', JArr [])])"
    using T2 unfolding req_demo_def by (simp add: dflt_def)
  have 3: "map_of [(''Action'', JStr ''Add''), (''Rows'', JArr [])] ''Properties'' \<noteq> Some JNull
   \<and> ''Properties'' \<notin> fst ` set [(''Action'', JStr ''Add''), (''Rows'', JArr [])]"
    using T3 bp by simp
  have 4: "list_all (\<lambda>r. r = req_demo) (drop (length (sent no_net)) [req_demo])"
    using T2 run unfolding req_demo_def by (simp add: no_net_def)
  from 1 2 3 4 show ?thesis by blast
qed

subsection \<open>The selector\<close>

lemma startsWith_bracket:
  "startsWith s ''['' = (s \<noteq> [] \<and> hd s = CHR ''['')"
  by (cases s) (simp_all add: startsWith_def)

lemma digits_5: "digits 5 = ''5''"
  by (simp add: digits.simps [of 5])

lemma find_selector_amended:
  "find_selector rt (JStr t) (opt_str f) (opt_str c) (JBool d) l
     = Inr (buildSelector_spec rt t (given_str f) (given_str c) d (limit_number l))"
proof -
  have f: "(if truthy (opt_str f) then opt_str f else JStr ''TRUE'')
             = JStr (case given_str f of None \<Rightarrow> ''TRUE'' | Some cond \<Rightarrow> cond)"
    by (cases f) (simp_all add: opt_str_def given_str_def)
  have top: "(typeof l = ''number'' \<and> num_lt (Fin 0) (ToNumber rt l))
               = (case limit_number l of None \<Rightarrow> False | Some x \<Rightarrow> num_lt (Fin 0) x)"
    by (cases l) (simp_all add: limit_number_def)
  have shown: "limit_number l = Some x \<Longrightarrow> ToString rt l = num_text rt x" for x
    by (cases l) (simp_all add: limit_number_def)
  show ?thesis
  proof (cases "given_str c")
    case None
    then have "\<not> truthy (opt_str c)"
      by (cases c) (simp_all add: opt_str_def given_str_def split: if_splits)
    with None show ?thesis
      by (cases "limit_number l")
         (simp_all add: find_selector_def buildSelector_spec_def Let_def f top shown)
  next
    case (Some col)
    then have c: "opt_str c = JStr col" and col: "col \<noteq> []"
      by (cases c; simp add: opt_str_def given_str_def split: if_splits)+
    with Some show ?thesis
      by (cases "limit_number l")
         (simp_all add: find_selector_def buildSelector_spec_def Let_def f top shown dflt_def
            startsWith_bracket)
  qed
qed

text \<open>
  C2. The selector \<open>find\<close> builds is composed filter, then order, then limit, for
  every table name \<open>t\<close>, optional filter condition \<open>f\<close>, optional order column \<open>c\<close>,
  descending flag \<open>d\<close> and limit \<open>l\<close> of any type, where an argument counts as given
  when it is a non-empty string (the empty string counts as absent, as an argument left
  out does): the base is \<open>Filter(t, f)\<close> with \<open>TRUE\<close> for \<open>f\<close> when \<open>f\<close> is not given;
  when \<open>c\<close> is given the base is wrapped as \<open>OrderBy(base, [c], TRUE)\<close> for ascending
  and \<open>OrderBy(base, [c], FALSE)\<close> for descending order, \<open>c\<close> bracketed unless it
  starts with a bracket; the result is wrapped as \<open>Top(_, l)\<close> when \<open>l\<close> is a number
  above 0, and there is no \<open>Top\<close> for any other \<open>l\<close> (absent, a number not above 0,
  NaN, or a value that is not a number). The example
  \<open>("T", "X=1", "name", false, 5)\<close> gives
  \<open>Top(OrderBy(Filter(T, X=1), [name], TRUE), 5)\<close>.
\<close>

theorem find_selector_composition:
  "find_selector rt (JStr t) (opt_str f) (opt_str c) (JBool d) l
     = Inr (buildSelector_spec rt t (given_str f) (given_str c) d (limit_number l))
   \<and> find_selector rt (JStr ''T'') (JStr ''X=1'') (JStr ''name'') (JBool False) (JNum (Fin 5))
        = Inr ''Top(OrderBy(Filter(T, X=1), [name], TRUE), 5)''"
proof
  show "find_selector rt (JStr t) (opt_str f) (opt_str c) (JBool d) l
     = Inr (buildSelector_spec rt t (given_str f) (given_str c) d (limit_number l))"
    by (rule find_selector_amended)
  show "find_selector rt (JStr ''T'') (JStr ''X=1'') (JStr ''name'') (JBool False) (JNum (Fin 5))
        = Inr ''Top(OrderBy(Filter(T, X=1), [name], TRUE), 5)''"
    by (simp add: find_selector_def dflt_def Let_def startsWith_def num_text_def digits_5)
qed

theorem find_selector_composition_witness:
  "find_selector rt_demo (JStr ''T'') (JStr ''X=1'') (JStr ''name'') (JBool True) JUndefined
     = Inr ''OrderBy(Filter(T, X=1), [name], FALSE)''
   \<and> find_selector rt_demo (JStr ''T'') JUndefined (JStr ''[name]'') (JBool False) (JNum (Fin 5))
     = Inr ''Top(OrderBy(Filter(T, TRUE), [name], TRUE), 5)''
   \<and> find_selector rt_demo (JStr ''T'') JUndefined JUndefined (JBool False) (JStr ''5'')
     = Inr ''Filter(T, TRUE)''
   \<and> find_selector rt_demo (JStr ''T'') JUndefined JUndefined (JBool False) (JNum (Fin 0))
     = Inr ''Filter(T, TRUE)''"
proof -
  have 1: "find_selector rt_demo (JStr ''T'') (opt_str (Some ''X=1'')) (opt_str (Some ''name''))
             (JBool True) JUndefined
           = Inr (buildSelector_spec rt_demo ''T'' (given_str (Some ''X=1''))
                    (given_str (Some ''name'')) True (limit_number JUndefined))"
    using find_selector_composition [where f = "Some ''X=1''" and c = "Some ''name''"
        and rt = rt_demo and t = "''T''" and d = True and l = JUndefined]
    by blast
  have 2: "find_selector rt_demo (JStr ''T'') (opt_str None) (opt_str (Some ''[name]''))
             (JBool False) (JNum (Fin 5))
           = Inr (buildSelector_spec rt_demo ''T'' (given_str None) (given_str (Some ''[name]''))
                    False (limit_number (JNum (Fin 5))))"
    using find_selector_composition [where f = None and c = "Some ''[name]''"
        and rt = rt_demo and t = "''T''" and d = False and l = "JNum (Fin 5)"]
    by blast
  have 3: "find_selector rt_demo (JStr ''T'') (opt_str None) (opt_str None) (JBool False) (JStr ''5'')
           = Inr (buildSelector_spec rt_demo ''T'' (given_str None) (given_str None)
                    False (limit_number (JStr ''5'')))"
    using find_selector_composition [where f = None and c = None
        and rt = rt_demo and t = "''T''" and d = False and l = "JStr ''5''"]
    by blast
  have 4: "find_selector rt_demo (JStr ''T'') (opt_str None) (opt_str None) (JBool False)
             (JNum (Fin 0))
           = Inr (buildSelector_spec rt_demo ''T'' (given_str None) (given_str None)
                    False (limit_number (JNum (Fin 0))))"
    using find_selector_composition [where f = None and c = None
        and rt = rt_demo and t = "''T''" and d = False and l = "JNum (Fin 0)"]
    by blast
  from 1 2 3 4 show ?thesis
    by (simp add: opt_str_def given_str_def limit_number_def buildSelector_spec_def
        num_text_def digits_5)
qed

text \<open>
  With the empty string as order column the code builds no \<open>OrderBy\<close>, where the
  composition that wraps whenever a column is passed would give \<open>OrderBy(_, [], FALSE)\<close>;
  with the empty string as filter the code writes \<open>TRUE\<close>, not the empty condition.
\<close>

theorem find_selector_composition_counterexample:
  "find_selector rt_demo (JStr ''T'') (JStr ''X=1'') (JStr []) (JBool True) (JNum (Fin 5))
     = Inr ''Top(Filter(T, X=1), 5)''
   \<and> buildSelector_spec rt_demo ''T'' (Some ''X=1'') (Some []) True (Some (Fin 5))
     = ''Top(OrderBy(Filter(T, X=1), [], FALSE), 5)''
   \<and> find_selector rt_demo (JStr ''T'') (opt_str (Some ''X=1'')) (opt_str (Some [])) (JBool True)
        (opt_num (Some (Fin 5)))
     \<noteq> Inr (buildSelector_spec rt_demo ''T'' (Some ''X=1'') (Some []) True (Some (Fin 5)))
   \<and> find_selector rt_demo (JStr ''T'') (JStr []) JUndefined (JBool False) JUndefined
     = Inr ''Filter(T, TRUE)''
   \<and> buildSelector_spec rt_demo ''T'' (Some []) None False None = ''Filter(T, )''"
  by (simp add: find_selector_def buildSelector_spec_def dflt_def Let_def opt_str_def opt_num_def
      num_text_def digits_5)

lemma find_selector_falsy_filter:
  "\<not> truthy f \<Longrightarrow> find_selector rt t f c d n = find_selector rt t JUndefined c d n"
  by (simp add: find_selector_def)

text \<open>
  C9. A falsy filter condition (the empty string, 0, NaN, \<open>false\<close>, \<open>null\<close>) gives the
  same selector, and so the same call, as no filter condition at all; with the empty
  string and nothing else the selector is \<open>Filter(table, TRUE)\<close>.
\<close>

theorem find_falsy_filter_is_TRUE:
  "(\<not> truthy f \<longrightarrow>
      find_selector rt t f c d n = find_selector rt t JUndefined c d n
      \<and> App_find rt fetch this t f c d n w = App_find rt fetch this t JUndefined c d n w
      \<and> main_find rt fetch M t f c d n w = main_find rt fetch M t JUndefined c d n w)
   \<and> find_selector rt (JStr tab) (JStr []) JUndefined JUndefined JUndefined
       = Inr (''Filter('' @ tab @ '', TRUE)'')
   \<and> find_selector rt (JStr tab) JUndefined JUndefined JUndefined JUndefined
       = Inr (''Filter('' @ tab @ '', TRUE)'')"
proof (intro conjI impI)
  assume f: "\<not> truthy f"
  show "find_selector rt t f c d n = find_selector rt t JUndefined c d n"
    using f by (rule find_selector_falsy_filter)
  then show "App_find rt fetch this t f c d n w = App_find rt fetch this t JUndefined c d n w"
    by (simp only: App_find_def)
  show "main_find rt fetch M t f c d n w = main_find rt fetch M t JUndefined c d n w"
    using find_selector_falsy_filter [OF f] by (simp only: main_find_def)
next
  show "find_selector rt (JStr tab) (JStr []) JUndefined JUndefined JUndefined
       = Inr (''Filter('' @ tab @ '', TRUE)'')"
    by (simp add: find_selector_def dflt_def)
  show "find_selector rt (JStr tab) JUndefined JUndefined JUndefined JUndefined
       = Inr (''Filter('' @ tab @ '', TRUE)'')"
    by (simp add: find_selector_def dflt_def)
qed

theorem find_falsy_filter_is_TRUE_witness:
  "find_selector rt_demo (JStr ''T'') (JStr []) (JStr ''name'') JUndefined JUndefined
     = Inr ''OrderBy(Filter(T, TRUE), [name], TRUE)''
   \<and> find_selector rt_demo (JStr ''T'') (JNum (Fin 0)) JUndefined JUndefined JUndefined
     = Inr ''Filter(T, TRUE)''
   \<and> App_find rt_demo (failing_then 0 \<lparr>responseCode = 200, contentText = ''[]''\<rparr>)
        (new_App rt_demo (JStr ''A'') (JStr ''key'') (JStr ''www.appsheet.com'') (JNum (Fin 2)))
        (JStr ''T'') (JStr []) JUndefined JUndefined JUndefined no_net
     = App_find rt_demo (failing_then 0 \<lparr>responseCode = 200, contentText = ''[]''\<rparr>)
        (new_App rt_demo (JStr ''A'') (JStr ''key'') (JStr ''www.appsheet.com'') (JNum (Fin 2)))
        (JStr ''T'') JUndefined JUndefined JUndefined JUndefined no_net"
proof -
  have a: "\<not> truthy (JStr [])" and b: "\<not> truthy (JNum (Fin 0))" by simp_all
  have s: "find_selector rt_demo (JStr ''T'') JUndefined (JStr ''name'') JUndefined JUndefined
             = Inr ''OrderBy(Filter(T, TRUE), [name], TRUE)''"
    by (simp add: find_selector_def dflt_def startsWith_def)
  note T1 = find_falsy_filter_is_TRUE [where f = "JStr []" and rt = rt_demo and t = "JStr ''T''"
      and c = "JStr ''name''" and d = JUndefined and n = JUndefined and tab = "''T''"]
  note T2 = find_falsy_filter_is_TRUE [where f = "JNum (Fin 0)" and rt = rt_demo and t = "JStr ''T''"
      and c = JUndefined and d = JUndefined and n = JUndefined and tab = "''T''"]
  note T3 = find_falsy_filter_is_TRUE [where f = "JStr []" and rt = rt_demo and t = "JStr ''T''"
      and c = JUndefined and d = JUndefined and n = JUndefined and w = no_net
      and fetch = "failing_then 0 \<lparr>responseCode = 200, contentText = ''[]''\<rparr>"
      and this = "new_App rt_demo (JStr ''A'') (JStr ''key'') (JStr ''www.appsheet.com'') (JNum (Fin 2))"]
  from T1 a s have 1: "find_selector rt_demo (JStr ''T'') (JStr []) (JStr ''name'') JUndefined JUndefined
     = Inr ''OrderBy(Filter(T, TRUE), [name], TRUE)''" by simp
  from T2 b have 2: "find_selector rt_demo (JStr ''T'') (JNum (Fin 0)) JUndefined JUndefined JUndefined
     = Inr ''Filter(T, TRUE)''" by simp
  from T3 a have 3: "App_find rt_demo (failing_then 0 \<lparr>responseCode = 200, contentText = ''[]''\<rparr>)
        (new_App rt_demo (JStr ''A'') (JStr ''key'') (JStr ''www.appsheet.com'') (JNum (Fin 2)))
        (JStr ''T'') (JStr []) JUndefined JUndefined JUndefined no_net
     = App_find rt_demo (failing_then 0 \<lparr>responseCode = 200, contentText = ''[]''\<rparr>)
        (new_App rt_demo (JStr ''A'') (JStr ''key'') (JStr ''www.appsheet.com'') (JNum (Fin 2)))
        (JStr ''T'') JUndefined JUndefined JUndefined JUndefined no_net" by blast
  from 1 2 3 show ?thesis by blast
qed

subsection \<open>findByKey\<close>

lemma keyFilter_strings:
  "keyFilter rt (JStr c) (JStr v) = ''['' @ c @ ''] = \"'' @ v @ ''\"''"
  by (simp add: keyFilter_def)

text \<open>
  C10. \<open>findByKey\<close> builds its filter by plain concatenation, with no escaping: for a
  column \<open>c\<close> and a value \<open>v\<close> the filter is \<open>[\<close>, \<open>c\<close>, \<open>] = "\<close>, \<open>v\<close>, \<open>"\<close>,
  this is the filter \<open>find\<close> is called with, and it appears as it is in the selector. A
  double quote inside \<open>v\<close> therefore ends the string literal of the expression: the
  value \<open>7" OR "1"="1\<close> yields \<open>[id] = "7" OR "1"="1"\<close>, and two different pairs of
  column and value can yield the same filter.
\<close>

theorem findByKey_filter_is_concatenation:
  "keyFilter rt (JStr c) (JStr v) = ''['' @ c @ ''] = \"'' @ v @ ''\"''
   \<and> main_findByKey rt fetch M t (JStr c) (JStr v) w
       = (case main_find rt fetch M t (JStr (''['' @ c @ ''] = \"'' @ v @ ''\"''))
                JUndefined JUndefined JUndefined w of
            None \<Rightarrow> None
          | Some (Inl e, w') \<Rightarrow> Some (Inl e, w')
          | Some (Inr result, w') \<Rightarrow> Some (firstMatch rt result, w'))
   \<and> find_selector rt (JStr tab) (JStr (keyFilter rt (JStr c) (JStr v)))
         JUndefined JUndefined JUndefined
       = Inr (''Filter('' @ tab @ '', ['' @ c @ ''] = \"'' @ v @ ''\")'')
   \<and> keyFilter rt (JStr ''id'') (JStr ''7\" OR \"1\"=\"1'') = ''[id] = \"7\" OR \"1\"=\"1\"''
   \<and> keyFilter rt (JStr ''a'') (JStr ''b\"] = \"c'') = keyFilter rt (JStr ''a] = \"b\"'') (JStr ''c'')"
  by (simp add: keyFilter_strings main_findByKey_def find_selector_def dflt_def)

lemma firstMatch_not_200:
  "code result \<noteq> 200 \<Longrightarrow> firstMatch rt result = Inr result"
  by (simp add: firstMatch_def)

lemma firstMatch_array:
  assumes "code result = 200" and "content result = JArr rows"
  shows "firstMatch rt result =
           Inr (result\<lparr> content := (case rows of [] \<Rightarrow> JNull | r # _ \<Rightarrow> r),
                        rowsReturned := (if rows \<noteq> [] \<and> truthy (hd rows) then 1 else 0) \<rparr>)"
  using assms by (cases rows) (simp_all add: firstMatch_def)

text \<open>
  C4. \<open>findByKey\<close> calls \<open>find\<close> with the filter \<open>[keyColumn] = "keyValue"\<close> and works
  on nothing but the result of that call. A result whose status code is not 200 is
  returned unchanged. For status 200 and an array of records as content, the response
  carries the first record as content, or \<open>null\<close> for the empty array, and
  \<open>rowsReturned\<close> is 1 when there is a record and 0 otherwise; the other fields and the
  requests sent are those of \<open>find\<close>. An error thrown by \<open>find\<close> propagates.
\<close>

theorem findByKey_first_match:
  "(main_find rt fetch M t (JStr (keyFilter rt kc kv)) JUndefined JUndefined JUndefined w
        = Some (Inr result, w') \<and> code result \<noteq> 200
      \<longrightarrow> main_findByKey rt fetch M t kc kv w = Some (Inr result, w'))
   \<and> (main_find rt fetch M t (JStr (keyFilter rt kc kv)) JUndefined JUndefined JUndefined w
        = Some (Inr result, w') \<and> code result = 200 \<and> content result = JArr rows
        \<and> (\<forall>r \<in> set rows. \<exists>fields. r = JObj fields)
      \<longrightarrow> main_findByKey rt fetch M t kc kv w
           = Some (Inr (result\<lparr> content := (case rows of [] \<Rightarrow> JNull | r # _ \<Rightarrow> r),
                                rowsReturned := (if rows = [] then 0 else 1) \<rparr>), w'))
   \<and> (main_find rt fetch M t (JStr (keyFilter rt kc kv)) JUndefined JUndefined JUndefined w
        = Some (Inl e, w')
      \<longrightarrow> main_findByKey rt fetch M t kc kv w = Some (Inl e, w'))
   \<and> keyFilter rt (JStr c) (JStr v) = ''['' @ c @ ''] = \"'' @ v @ ''\"''"
proof (intro conjI impI)
  assume "main_find rt fetch M t (JStr (keyFilter rt kc kv)) JUndefined JUndefined JUndefined w
        = Some (Inr result, w') \<and> code result \<noteq> 200"
  then show "main_findByKey rt fetch M t kc kv w = Some (Inr result, w')"
    by (simp add: main_findByKey_def firstMatch_not_200)
next
  assume a: "main_find rt fetch M t (JStr (keyFilter rt kc kv)) JUndefined JUndefined JUndefined w
        = Some (Inr result, w') \<and> code result = 200 \<and> content result = JArr rows
        \<and> (\<forall>r \<in> set rows. \<exists>fields. r = JObj fields)"
  then have "rows \<noteq> [] \<Longrightarrow> truthy (hd rows)"
    by (cases rows) auto
  then have "(if rows \<noteq> [] \<and> truthy (hd rows) then 1 else 0) = (if rows = [] then 0 else (1::nat))"
    by auto
  with a show "main_findByKey rt fetch M t kc kv w
           = Some (Inr (result\<lparr> content := (case rows of [] \<Rightarrow> JNull | r # _ \<Rightarrow> r),
                                rowsReturned := (if rows = [] then 0 else 1) \<rparr>), w')"
    by (simp add: main_findByKey_def firstMatch_array)
next
  assume "main_find rt fetch M t (JStr (keyFilter rt kc kv)) JUndefined JUndefined JUndefined w
        = Some (Inl e, w')"
  then show "main_findByKey rt fetch M t kc kv w = Some (Inl e, w')"
    by (simp add: main_findByKey_def)
next
  show "keyFilter rt (JStr c) (JStr v) = ''['' @ c @ ''] = \"'' @ v @ ''\"''"
    by (rule keyFilter_strings)
qed

lemma main_find_first_response:
  assumes "find_selector rt t f c d n = Inr sel"
    and "num_lt (Fin 0) (ToNumber rt (CONFIG_maxRetries M))"
    and "fetch w (requestOptions rt (BASE_URL M) (CONFIG_apiKey M) t ''Find'' JUndefined (JStr sel))
           = Inr resp"
  shows "main_find rt fetch M t f c d n w
           = Some (main_readResponse rt resp,
                   w\<lparr>sent := sent w @ [requestOptions rt (BASE_URL M) (CONFIG_apiKey M) t ''Find''
                                          JUndefined (JStr sel)]\<rparr>)"
  using assms
    fetchLoop_response [of 0 rt "CONFIG_maxRetries M" fetch w
      "requestOptions rt (BASE_URL M) (CONFIG_apiKey M) t ''Find'' JUndefined (JStr sel)" resp]
  by (simp add: main_find_def main_makeRequest_def Let_def)

lemma key_selector_demo:
  "find_selector rt_demo (JStr ''users'') (JStr (keyFilter rt_demo (JStr ''id'') (JStr ''7'')))
     JUndefined JUndefined JUndefined = Inr ''Filter(users, [id] = \"7\")''"
  by (simp add: find_selector_def keyFilter_def dflt_def)

lemma main_find_demo:
  "main_find rt_demo (failing_then 0 resp) main_init (JStr ''users'')
     (JStr (keyFilter rt_demo (JStr ''id'') (JStr ''7''))) JUndefined JUndefined JUndefined no_net
   = Some (main_readResponse rt_demo resp, \<lparr>sent = [key_req_demo], slept = 0\<rparr>)"
proof -
  have "num_lt (Fin 0) (ToNumber rt_demo (CONFIG_maxRetries main_init))"
    by (simp add: main_init_def)
  moreover have "failing_then 0 resp no_net
      (requestOptions rt_demo (BASE_URL main_init) (CONFIG_apiKey main_init) (JStr ''users'')
         ''Find'' JUndefined (JStr ''Filter(users, [id] = \"7\")'')) = Inr resp"
    by (simp add: failing_then_def)
  ultimately show ?thesis
    using main_find_first_response [OF key_selector_demo, of main_init "failing_then 0 resp" no_net resp]
    by (simp add: key_req_demo_def no_net_def)
qed

theorem findByKey_first_match_witness:
  "main_findByKey rt_demo (failing_then 0 \<lparr>responseCode = 200, contentText = ''[{\"id\":\"7\"}]''\<rparr>)
       main_init (JStr ''users'') (JStr ''id'') (JStr ''7'') no_net
     = Some (Inr \<lparr>code = 200, content = JObj [(''id'', JStr ''7'')], rowsReturned = 1\<rparr>,
             \<lparr>sent = [key_req_demo], slept = 0\<rparr>)
   \<and> main_findByKey rt_demo (failing_then 0 \<lparr>responseCode = 200, contentText = ''[]''\<rparr>)
       main_init (JStr ''users'') (JStr ''id'') (JStr ''7'') no_net
     = Some (Inr \<lparr>code = 200, content = JNull, rowsReturned = 0\<rparr>,
             \<lparr>sent = [key_req_demo], slept = 0\<rparr>)
   \<and> main_findByKey rt_demo (failing_then 0 \<lparr>responseCode = 404, contentText = ''[]''\<rparr>)
       main_init (JStr ''users'') (JStr ''id'') (JStr ''7'') no_net
     = Some (Inr \<lparr>code = 404, content = JArr [], rowsReturned = 0\<rparr>,
             \<lparr>sent = [key_req_demo], slept = 0\<rparr>)
   \<and> main_findByKey rt_demo (failing_then 0 \<lparr>responseCode = 200, contentText = ''<html>''\<rparr>)
       main_init (JStr ''users'') (JStr ''id'') (JStr ''7'') no_net
     = Some (Inl SyntaxError, \<lparr>sent = [key_req_demo], slept = 0\<rparr>)"
proof -
  let ?hit = "\<lparr>responseCode = 200, contentText = ''[{\"id\":\"7\"}]''\<rparr>"
  let ?miss = "\<lparr>responseCode = 200, contentText = ''[]''\<rparr>"
  let ?nf = "\<lparr>responseCode = 404, contentText = ''[]''\<rparr>"
  let ?html = "\<lparr>responseCode = 200, contentText = ''<html>''\<rparr>"
  let ?w = "\<lparr>sent = [key_req_demo], slept = 0\<rparr>"
  have r1: "main_readResponse rt_demo ?hit
              = Inr \<lparr>code = 200, content = JArr [JObj [(''id'', JStr ''7'')]], rowsReturned = 1\<rparr>"
    and r2: "main_readResponse rt_demo ?miss = Inr \<lparr>code = 200, content = JArr [], rowsReturned = 0\<rparr>"
    and r3: "main_readResponse rt_demo ?nf = Inr \<lparr>code = 404, content = JArr [], rowsReturned = 0\<rparr>"
    and r4: "main_readResponse rt_demo ?html = Inl SyntaxError"
    by (simp_all add: main_readResponse_def rt_demo_def)
  note T = findByKey_first_match [where rt = rt_demo and M = main_init and t = "JStr ''users''"
      and kc = "JStr ''id''" and kv = "JStr ''7''" and w = no_net and w' = ?w]
  have 1: "main_findByKey rt_demo (failing_then 0 ?hit) main_init (JStr ''users'') (JStr ''id'')
             (JStr ''7'') no_net
           = Some (Inr \<lparr>code = 200, content = JObj [(''id'', JStr ''7'')], rowsReturned = 1\<rparr>, ?w)"
    using T [where fetch = "failing_then 0 ?hit" and rows = "[JObj [(''id'', JStr ''7'')]]"
        and result = "\<lparr>code = 200, content = JArr [JObj [(''id'', JStr ''7'')]], rowsReturned = 1\<rparr>"]
      main_find_demo [of ?hit]
    by (simp add: r1)
  have 2: "main_findByKey rt_demo (failing_then 0 ?miss) main_init (JStr ''users'') (JStr ''id'')
             (JStr ''7'') no_net
           = Some (Inr \<lparr>code = 200, content = JNull, rowsReturned = 0\<rparr>, ?w)"
    using T [where fetch = "failing_then 0 ?miss" and rows = "[]"
        and result = "\<lparr>code = 200, content = JArr [], rowsReturned = 0\<rparr>"]
      main_find_demo [of ?miss]
    by (simp add: r2)
  have 3: "main_findByKey rt_demo (failing_then 0 ?nf) main_init (JStr ''users'') (JStr ''id'')
             (JStr ''7'') no_net
           = Some (Inr \<lparr>code = 404, content = JArr [], rowsReturned = 0\<rparr>, ?w)"
    using T [where fetch = "failing_then 0 ?nf"
        and result = "\<lparr>code = 404, content = JArr [], rowsReturned = 0\<rparr>"]
      main_find_demo [of ?nf]
    by (simp add: r3)
  have 4: "main_findByKey rt_demo (failing_then 0 ?html) main_init (JStr ''users'') (JStr ''id'')
             (JStr ''7'') no_net
           = Some (Inl SyntaxError, ?w)"
    using T [where fetch = "failing_then 0 ?html" and e = SyntaxError]
      main_find_demo [of ?html]
    by (simp add: r4)
  from 1 2 3 4 show ?thesis by blast
qed


subsection \<open>The factory\<close>

lemma app_raises_iff:
  "isl (app rt a k r m) \<longleftrightarrow>
     (\<nexists>s. a = JStr s \<and> s \<noteq> [])
     \<or> (\<nexists>s. k = JStr s \<and> s \<noteq> [])
     \<or> (dflt r (JStr ''www.appsheet.com'') \<noteq> JStr ''www.appsheet.com''
         \<and> dflt r (JStr ''www.appsheet.com'') \<noteq> JStr ''eu.appsheet.com'')
     \<or> (case dflt m (JNum (Fin 2)) of JNum x \<Rightarrow> num_lt x (Fin 1) | _ \<Rightarrow> True)"
proof -
  have a: "(\<not> truthy a \<or> typeof a \<noteq> ''string'' \<or> get_length a = Inr (JNum (Fin 0)))
             = (\<nexists>s. a = JStr s \<and> s \<noteq> [])"
    by (cases a) auto
  have k: "(\<not> truthy k \<or> typeof k \<noteq> ''string'' \<or> get_length k = Inr (JNum (Fin 0)))
             = (\<nexists>s. k = JStr s \<and> s \<noteq> [])"
    by (cases k) auto
  have m: "(typeof v \<noteq> ''number'' \<or> num_lt (ToNumber rt v) (Fin 1))
             = (case v of JNum x \<Rightarrow> num_lt x (Fin 1) | _ \<Rightarrow> True)" for v
    by (cases v) auto
  show ?thesis
    unfolding app_def Let_def a k m by (auto split: if_splits)
qed

lemma app_ok:
  assumes "isl (app rt a k r m) = False"
  shows "app rt a k r m
           = Inr (new_App rt a k (dflt r (JStr ''www.appsheet.com'')) (dflt m (JNum (Fin 2))))"
  using assms by (auto simp: app_def Let_def split: if_splits)

lemma num_lt_1_iff:
  "x \<noteq> NaN \<Longrightarrow> num_lt x (Fin 1) = (\<not> num_ge x (Fin 1))"
  by (simp add: num_ge_def)

lemma app_raises_iff_unless_NaN:
  assumes "dflt m (JNum (Fin 2)) \<noteq> JNum NaN"
  shows "isl (app rt a k r m) \<longleftrightarrow>
     (\<nexists>s. a = JStr s \<and> s \<noteq> [])
     \<or> (\<nexists>s. k = JStr s \<and> s \<noteq> [])
     \<or> (dflt r (JStr ''www.appsheet.com'') \<noteq> JStr ''www.appsheet.com''
         \<and> dflt r (JStr ''www.appsheet.com'') \<noteq> JStr ''eu.appsheet.com'')
     \<or> (\<nexists>x. dflt m (JNum (Fin 2)) = JNum x \<and> num_ge x (Fin 1))"
proof -
  have "(case dflt m (JNum (Fin 2)) of JNum x \<Rightarrow> num_lt x (Fin 1) | _ \<Rightarrow> True)
          = (\<nexists>x. dflt m (JNum (Fin 2)) = JNum x \<and> num_ge x (Fin 1))"
    using assms by (cases "dflt m (JNum (Fin 2))") (auto simp: num_lt_1_iff)
  then show ?thesis by (simp only: app_raises_iff)
qed

text \<open>
  C7. The factory is to reject a \<open>maxRetries\<close> that is not a number of at least 1. The
  test in the code is \<open>typeof maxRetries !== 'number' || maxRetries < 1\<close>, and NaN passes
  it: NaN has type number and \<open>NaN < 1\<close> is false, although NaN is not at least 1. The
  factory returns a client, and the first request of that client throws a TypeError
  without a network call, since the loop \<open>while (attempts < maxRetries)\<close> never runs and
  \<open>response\<close> stays \<open>undefined\<close>. Apart from NaN the factory throws exactly when
  \<open>appId\<close> or the access key is not a non-empty string, the region is neither of the two
  hosts, or \<open>maxRetries\<close> is not a number of at least 1
  (\<open>app_raises_iff_unless_NaN\<close>).
\<close>

theorem app_accepts_NaN:
  "app rt (JStr ''APP_ID'') (JStr ''ACCESS_KEY'') (JStr ''www.appsheet.com'') (JNum NaN)
     = Inr (new_App rt (JStr ''APP_ID'') (JStr ''ACCESS_KEY'') (JStr ''www.appsheet.com'') (JNum NaN))
   \<and> \<not> num_ge NaN (Fin 1)
   \<and> App_find rt fetch
        (new_App rt (JStr ''APP_ID'') (JStr ''ACCESS_KEY'') (JStr ''www.appsheet.com'') (JNum NaN))
        (JStr ''T'') JUndefined JUndefined JUndefined JUndefined w
     = Some (Inl TypeError, w)"
  by (simp add: app_def dflt_def num_ge_def App_find_def find_selector_def new_App_def
      makeRequest_of_loop fetchLoop_skip)

theorem app_accepts_NaN_witness:
  "\<not> isl (app rt_demo (JStr ''APP_ID'') (JStr ''ACCESS_KEY'') (JStr ''www.appsheet.com'') (JNum NaN))
   \<and> App_find rt_demo (failing_then 0 \<lparr>responseCode = 200, contentText = ''[]''\<rparr>)
        (new_App rt_demo (JStr ''APP_ID'') (JStr ''ACCESS_KEY'') (JStr ''www.appsheet.com'')
           (JNum NaN))
        (JStr ''T'') JUndefined JUndefined JUndefined JUndefined no_net
     = Some (Inl TypeError, no_net)"
  using app_accepts_NaN [where rt = rt_demo and w = no_net
      and fetch = "failing_then 0 \<lparr>responseCode = 200, contentText = ''[]''\<rparr>"]
  by simp

subsection \<open>normalizeRecords\<close>

text \<open>
  C8. The record normalizer: every falsy input gives the empty array, every truthy input
  that is not an array gives the one-element array holding that input unchanged, and
  every array is returned as it is (same elements, same order).
\<close>

theorem normalizeRecords_cases:
  "(\<not> truthy v \<longrightarrow> normalizeRecords v = JArr [])
   \<and> (truthy v \<and> \<not> isArray v \<longrightarrow> normalizeRecords v = JArr [v])
   \<and> (\<forall>xs. v = JArr xs \<longrightarrow> normalizeRecords v = JArr xs)"
  by (auto simp: normalizeRecords_def)

theorem normalizeRecords_cases_witness:
  "\<not> truthy (JStr '''') \<and> normalizeRecords (JStr '''') = JArr []
   \<and> \<not> truthy (JNum NaN) \<and> normalizeRecords (JNum NaN) = JArr []
   \<and> truthy (JObj [(''Name'', JStr ''Jane'')])
   \<and> \<not> isArray (JObj [(''Name'', JStr ''Jane'')])
   \<and> normalizeRecords (JObj [(''Name'', JStr ''Jane'')])
       = JArr [JObj [(''Name'', JStr ''Jane'')]]
   \<and> normalizeRecords (JArr [JNum (Fin 2), JNum (Fin 1)]) = JArr [JNum (Fin 2), JNum (Fin 1)]"
  using normalizeRecords_cases [of "JStr ''''"]
        normalizeRecords_cases [of "JNum NaN"]
        normalizeRecords_cases [of "JObj [(''Name'', JStr ''Jane'')]"]
        normalizeRecords_cases [of "JArr [JNum (Fin 2), JNum (Fin 1)]"]
  by simp


end
